theory Spec2Isabelle
  imports Main "HOL-Library.Word"
begin

section \<open>Data model of kernelalloc.hpp\<close>

text \<open>
  \<^verbatim>\<open>size_type\<close> is \<^verbatim>\<open>size_t\<close>: an unsigned integer of some width \<open>w\<close>, here \<open>'w word\<close>.
  Addresses (\<^verbatim>\<open>void *\<close>, \<^verbatim>\<open>T *\<close>) have the same width, with \<open>0\<close> for \<^verbatim>\<open>nullptr\<close>.
  An \<^verbatim>\<open>error_code\<close> is its value, \<open>0\<close> when no error is set, so that \<^verbatim>\<open>if(ec)\<close> reads
  \<open>ec \<noteq> 0\<close>. A \<^verbatim>\<open>shared_ptr\<close> is the identity of the object it points to, \<open>None\<close> when
  empty; comparing two of them compares the identities.
\<close>

type_synonym error_code = nat
type_synonym provider_id = nat
type_synonym allocation_id = nat
type_synonym provider_ptr = "provider_id option"
type_synonym allocation_ptr = "allocation_id option"

text \<open>
  \<^verbatim>\<open>struct map_t\<close>. The record is polymorphic in the representation of \<^verbatim>\<open>size_type\<close>
  and is used at \<open>'w word\<close> throughout.
\<close>

record 'sz map_t =
  addr :: 'sz
  offset :: 'sz
  length_m :: 'sz
  ec :: error_code

text \<open>\<^verbatim>\<open>map_t()\<close> and \<^verbatim>\<open>map_t(_offset, _length)\<close>.\<close>

definition map_t0 :: "'w::len word map_t" where
  "map_t0 = \<lparr>addr = 0, offset = 0, length_m = 0, ec = 0\<rparr>"

definition map_t2 :: "'w::len word \<Rightarrow> 'w word \<Rightarrow> 'w word map_t" where
  "map_t2 offs len = \<lparr>addr = 0, offset = offs, length_m = len, ec = 0\<rparr>"

text \<open>The exceptions thrown by \<^verbatim>\<open>allocator\<close>, with their arguments.\<close>

datatype exn =
    Invalid_argument string
  | Bad_alloc
  | System_error error_code string

subsection \<open>The pure virtual member functions\<close>

text \<open>
  \<^verbatim>\<open>allocation::size\<close>, \<^verbatim>\<open>map\<close>, \<^verbatim>\<open>unmap\<close>, \<^verbatim>\<open>prefault\<close>, \<^verbatim>\<open>discard\<close> and
  \<^verbatim>\<open>provider::allocate\<close>, \<^verbatim>\<open>provider::allocation\<close> are pure virtual: the header has no
  implementation of them. They are parameters of the model, dispatched on the identity
  of the object and acting on a state \<open>'s\<close> of the implementations' own.

  A batch operation \<^verbatim>\<open>(map_t *m, size_type no)\<close> receives the array as a list of \<open>no\<close>
  descriptors and returns the count and the array as it has left it.
  \<^verbatim>\<open>provider::allocate(error_code &ec, size_type bytes)\<close> receives \<open>ec\<close> and returns
  it with the pointer. \<^verbatim>\<open>provider::allocation(void *addr, map_t *map)\<close> receives the
  descriptor behind \<open>map\<close> (\<open>None\<close> for \<^verbatim>\<open>nullptr\<close>) and returns it with the pointer.
\<close>

datatype batch_op = Op_map | Op_unmap | Op_prefault | Op_discard

record ('sz, 's) vtable =
  v_size :: "allocation_id \<Rightarrow> 's \<Rightarrow> 'sz"
  v_batch :: "batch_op \<Rightarrow> allocation_id \<Rightarrow> 'sz map_t list \<Rightarrow> 's \<Rightarrow> 'sz \<times> 'sz map_t list \<times> 's"
  v_allocate :: "provider_id \<Rightarrow> error_code \<Rightarrow> 'sz \<Rightarrow> 's \<Rightarrow> (allocation_ptr \<times> error_code) \<times> 's"
  v_allocation :: "provider_id \<Rightarrow> 'sz \<Rightarrow> 'sz map_t option \<Rightarrow> 's \<Rightarrow> (allocation_ptr \<times> 'sz map_t option) \<times> 's"

text \<open>
  Every call of a state-changing virtual function is recorded, in order, with its
  arguments: the world is the implementations' state and the calls made so far.
\<close>

datatype 'sz call =
    Call_allocate provider_id 'sz
  | Call_allocation provider_id 'sz
  | Call_batch batch_op allocation_id "'sz map_t list"

type_synonym ('sz, 's) world = "'s \<times> 'sz call list"

text \<open>
  The callee writes into the caller's array in place: it cannot change its length.
  Of what an implementation returns, the caller sees the entries inside its own array.
\<close>

definition writeback :: "'a list \<Rightarrow> 'a list \<Rightarrow> 'a list" where
  "writeback ms ms' = take (length ms) ms' @ drop (length ms') ms"

definition elem0 :: "'a \<Rightarrow> 'a list \<Rightarrow> 'a" where
  "elem0 m ms' = (case ms' of [] \<Rightarrow> m | m' # _ \<Rightarrow> m')"

definition call_batch ::
  "('w::len word, 's) vtable \<Rightarrow> batch_op \<Rightarrow> allocation_id \<Rightarrow> 'w word map_t list \<Rightarrow>
   ('w word, 's) world \<Rightarrow> ('w word \<times> 'w word map_t list) \<times> ('w word, 's) world" where
  "call_batch V opr a ms w =
     (case v_batch V opr a ms (fst w) of
        (c, ms', s') \<Rightarrow> ((c, writeback ms ms'), (s', snd w @ [Call_batch opr a ms])))"

definition call_allocate ::
  "('w::len word, 's) vtable \<Rightarrow> provider_id \<Rightarrow> error_code \<Rightarrow> 'w word \<Rightarrow>
   ('w word, 's) world \<Rightarrow> (allocation_ptr \<times> error_code) \<times> ('w word, 's) world" where
  "call_allocate V p e bytes w =
     (case v_allocate V p e bytes (fst w) of
        (r, s') \<Rightarrow> (r, (s', snd w @ [Call_allocate p bytes])))"

definition call_allocation ::
  "('w::len word, 's) vtable \<Rightarrow> provider_id \<Rightarrow> 'w word \<Rightarrow> 'w word map_t \<Rightarrow>
   ('w word, 's) world \<Rightarrow> (allocation_ptr \<times> 'w word map_t) \<times> ('w word, 's) world" where
  "call_allocation V p x m w =
     (case v_allocation V p x (Some m) (fst w) of
        ((a, mo), s') \<Rightarrow>
          ((a, (case mo of None \<Rightarrow> m | Some m' \<Rightarrow> m')), (s', snd w @ [Call_allocation p x])))"

section \<open>class allocation: the convenience overloads\<close>

text \<open>
  The single-descriptor overload, \<^verbatim>\<open>bool map(map_t &m) { return 1==map(&m 1); }\<close> (read
  with the missing comma), and its three siblings.
\<close>

definition single ::
  "('w::len word, 's) vtable \<Rightarrow> batch_op \<Rightarrow> allocation_id \<Rightarrow> 'w word map_t \<Rightarrow>
   ('w word, 's) world \<Rightarrow> (bool \<times> 'w word map_t) \<times> ('w word, 's) world" where
  "single V opr a m w =
     (case call_batch V opr a [m] w of
        ((c, ms), w') \<Rightarrow> ((1 = c, elem0 m ms), w'))"

text \<open>
  The iterator-pair overload:
  \<^verbatim>\<open>size_type ret=0; for(; begin!=end; ++begin) ret+=map(&(*begin()), 1); return ret;\<close>
  The loop runs over the descriptors between the two iterators, \<open>ret\<close> is the
  accumulator.
\<close>

fun range_loop ::
  "('w::len word, 's) vtable \<Rightarrow> batch_op \<Rightarrow> allocation_id \<Rightarrow> 'w word \<Rightarrow> 'w word map_t list \<Rightarrow>
   ('w word, 's) world \<Rightarrow> ('w word \<times> 'w word map_t list) \<times> ('w word, 's) world" where
  "range_loop V opr a ret [] w = ((ret, []), w)"
| "range_loop V opr a ret (m # ms) w =
     (case call_batch V opr a [m] w of
        ((c, ms1), w1) \<Rightarrow>
          (case range_loop V opr a (ret + c) ms w1 of
             ((r, ms2), w2) \<Rightarrow> ((r, elem0 m ms1 # ms2), w2)))"

type_synonym ('w, 's) on_descriptor =
  "('w word, 's) vtable \<Rightarrow> allocation_id \<Rightarrow> 'w word map_t \<Rightarrow>
   ('w word, 's) world \<Rightarrow> (bool \<times> 'w word map_t) \<times> ('w word, 's) world"

type_synonym ('w, 's) on_descriptors =
  "('w word, 's) vtable \<Rightarrow> allocation_id \<Rightarrow> 'w word map_t list \<Rightarrow>
   ('w word, 's) world \<Rightarrow> ('w word \<times> 'w word map_t list) \<times> ('w word, 's) world"

definition map_single :: "('w::len, 's) on_descriptor" where
  "map_single V = single V Op_map"
definition unmap_single :: "('w::len, 's) on_descriptor" where
  "unmap_single V = single V Op_unmap"
definition prefault_single :: "('w::len, 's) on_descriptor" where
  "prefault_single V = single V Op_prefault"
definition discard_single :: "('w::len, 's) on_descriptor" where
  "discard_single V = single V Op_discard"

definition map_range :: "('w::len, 's) on_descriptors" where
  "map_range V a = range_loop V Op_map a 0"
definition unmap_range :: "('w::len, 's) on_descriptors" where
  "unmap_range V a = range_loop V Op_unmap a 0"
definition prefault_range :: "('w::len, 's) on_descriptors" where
  "prefault_range V a = range_loop V Op_prefault a 0"
definition discard_range :: "('w::len, 's) on_descriptors" where
  "discard_range V a = range_loop V Op_discard a 0"

text \<open>
  The container overloads pass \<^verbatim>\<open>std::begin(cont)\<close> and \<^verbatim>\<open>std::end(cont)\<close> to an
  iterator-pair overload. The one of \<^verbatim>\<open>unmap\<close> is written
  \<^verbatim>\<open>return map(std::begin(std::forward<T>(cont)), std::end(std::forward<T>(cont)));\<close>
\<close>

definition map_container :: "('w::len, 's) on_descriptors" where
  "map_container V a c w = map_range V a c w"
definition unmap_container :: "('w::len, 's) on_descriptors" where
  "unmap_container V a c w = map_range V a c w"
definition prefault_container :: "('w::len, 's) on_descriptors" where
  "prefault_container V a c w = prefault_range V a c w"
definition discard_container :: "('w::len, 's) on_descriptors" where
  "discard_container V a c w = discard_range V a c w"

text \<open>The vector overloads: \<^verbatim>\<open>return map(c.data(), c.size());\<close>\<close>

definition map_vector :: "('w::len, 's) on_descriptors" where
  "map_vector V a c w = call_batch V Op_map a c w"
definition unmap_vector :: "('w::len, 's) on_descriptors" where
  "unmap_vector V a c w = call_batch V Op_unmap a c w"
definition prefault_vector :: "('w::len, 's) on_descriptors" where
  "prefault_vector V a c w = call_batch V Op_prefault a c w"
definition discard_vector :: "('w::len, 's) on_descriptors" where
  "discard_vector V a c w = call_batch V Op_discard a c w"

text \<open>
  \<^verbatim>\<open>map_t map() { map_t m(0, size()); map(&m, 1); return m; }\<close>
  \<^verbatim>\<open>size()\<close> is \<^verbatim>\<open>const\<close>: it reads the state.
\<close>

definition map_all ::
  "('w::len word, 's) vtable \<Rightarrow> allocation_id \<Rightarrow> ('w word, 's) world \<Rightarrow>
   'w word map_t \<times> ('w word, 's) world" where
  "map_all V a w =
     (let m = map_t2 0 (v_size V a (fst w)) in
      case call_batch V Op_map a [m] w of
        ((c, ms), w') \<Rightarrow> (elem0 m ms, w'))"

section \<open>class allocator\<close>

text \<open>
  \<^verbatim>\<open>template<class T> class allocator\<close> has one member, \<^verbatim>\<open>_provider\<close>. The element type
  enters the code through \<^verbatim>\<open>sizeof(T)\<close> only, which the record carries beside it;
  \<^verbatim>\<open>sizeof\<close> is at least 1 for every type.
\<close>

record 'sz allocator =
  sizeof_T :: 'sz
  provider :: provider_ptr

text \<open>
  The constructors of lines 249 to 251: \<^verbatim>\<open>allocator()\<close>, \<^verbatim>\<open>allocator(const allocator &o)\<close>
  and \<^verbatim>\<open>allocator(allocator &&o)\<close>. The last two take an adapter of the same element
  type. A move leaves the \<^verbatim>\<open>shared_ptr\<close> moved from empty, so the moving constructor
  returns the source as well. \<open>sz\<close> is \<^verbatim>\<open>sizeof(T)\<close> of the adapter constructed.
\<close>

definition allocator_default :: "'sz \<Rightarrow> 'sz allocator" where
  "allocator_default sz = \<lparr>sizeof_T = sz, provider = None\<rparr>"

definition allocator_copy :: "'sz allocator \<Rightarrow> 'sz allocator" where
  "allocator_copy o' = \<lparr>sizeof_T = sizeof_T o', provider = provider o'\<rparr>"

definition allocator_move :: "'sz allocator \<Rightarrow> 'sz allocator \<times> 'sz allocator" where
  "allocator_move o' =
     (\<lparr>sizeof_T = sizeof_T o', provider = provider o'\<rparr>, o'\<lparr>provider := None\<rparr>)"

text \<open>
  The converting constructors of lines 252 and 253,
  \<^verbatim>\<open>template<class U> allocator(const allocator<U> &o) : _provider(o._provider) { }\<close>
  and its moving form, construct an \<^verbatim>\<open>allocator<T>\<close> from an \<^verbatim>\<open>allocator<U>\<close>. When \<open>U\<close>
  is \<open>T\<close>, overload resolution takes the constructors of lines 250 and 251. When \<open>U\<close>
  is another type, \<^verbatim>\<open>o._provider\<close> names a private member of another class:
  \<^verbatim>\<open>_provider\<close> is declared before \<^verbatim>\<open>public:\<close> (line 236), and the only friends of the
  class are \<^verbatim>\<open>operator==\<close> and \<^verbatim>\<open>operator!=\<close> (lines 233, 234). The constructor is then
  ill-formed: the program that uses it is not translated and no adapter is constructed.
  Element types are given by name.
\<close>

type_synonym type_name = string

datatype ill_formed = Private_member string

definition allocator_convert ::
  "type_name \<Rightarrow> type_name \<Rightarrow> 'sz allocator \<Rightarrow> ill_formed + 'sz allocator" where
  "allocator_convert T U o' =
     (if U = T then Inr (allocator_copy o') else Inl (Private_member ''_provider''))"

definition allocator_convert_move ::
  "type_name \<Rightarrow> type_name \<Rightarrow> 'sz allocator \<Rightarrow> ill_formed + 'sz allocator \<times> 'sz allocator" where
  "allocator_convert_move T U o' =
     (if U = T then Inr (allocator_move o') else Inl (Private_member ''_provider''))"

text \<open>\<^verbatim>\<open>size_type max_size() const { return ((size_type)-1)/sizeof(T); }\<close>\<close>

definition max_size :: "'w::len word allocator \<Rightarrow> 'w word" where
  "max_size this = (- 1) div sizeof_T this"

text \<open>
  \<^verbatim>\<open>allocate\<close> and \<^verbatim>\<open>deallocate\<close> are not \<^verbatim>\<open>const\<close>: they return the adapter with the
  result and the world. The \<open>hint\<close> of \<^verbatim>\<open>allocate\<close> and the \<open>n\<close> of \<^verbatim>\<open>deallocate\<close> are
  not used by the code. \<^verbatim>\<open>m->addr\<close> is read as \<^verbatim>\<open>m.addr\<close>.
\<close>

definition allocate ::
  "('w::len word, 's) vtable \<Rightarrow> 'w word allocator \<Rightarrow> 'w word \<Rightarrow> ('w word, 's) world \<Rightarrow>
   (exn + 'w word) \<times> 'w word allocator \<times> ('w word, 's) world" where
  "allocate V this n w =
     (case provider this of
        None \<Rightarrow> (Inl (Invalid_argument ''Unset provider''), this, w)
      | Some p \<Rightarrow>
          if n > max_size this then (Inl Bad_alloc, this, w)
          else
            let bytes = n * sizeof_T this in
            case call_allocate V p 0 bytes w of
              ((a, e), w1) \<Rightarrow>
                (case a of
                   None \<Rightarrow> (Inl (System_error e ''''), this, w1)
                 | Some al \<Rightarrow>
                     if e \<noteq> 0 then (Inl (System_error e ''''), this, w1)
                     else
                       case map_all V al w1 of
                         (m, w2) \<Rightarrow>
                           if addr m = 0 then (Inl Bad_alloc, this, w2)
                           else (Inr (addr m), this, w2)))"

definition deallocate ::
  "('w::len word, 's) vtable \<Rightarrow> 'w word allocator \<Rightarrow> 'w word \<Rightarrow> 'w word \<Rightarrow> ('w word, 's) world \<Rightarrow>
   (exn + unit) \<times> 'w word allocator \<times> ('w word, 's) world" where
  "deallocate V this p n w =
     (case provider this of
        None \<Rightarrow> (Inl (Invalid_argument ''Unset provider''), this, w)
      | Some pr \<Rightarrow>
          case call_allocation V pr p map_t0 w of
            ((a, m), w1) \<Rightarrow>
              (case a of
                 None \<Rightarrow> (Inl (Invalid_argument ''Address not found''), this, w1)
               | Some al \<Rightarrow>
                   case unmap_single V al m w1 of
                     ((b, m'), w2) \<Rightarrow>
                       if ec m' \<noteq> 0
                       then (Inl (System_error (ec m') ''Failed to unmap allocation''), this, w2)
                       else (Inr (), this, w2)))"

text \<open>\<^verbatim>\<open>operator==\<close> and \<^verbatim>\<open>operator!=\<close>, for adapters of any two element types.\<close>

definition operator_eq :: "'sz allocator \<Rightarrow> 'sz allocator \<Rightarrow> bool" where
  "operator_eq a b = (provider a = provider b)"

definition operator_ne :: "'sz allocator \<Rightarrow> 'sz allocator \<Rightarrow> bool" where
  "operator_ne a b = (provider a \<noteq> provider b)"

section \<open>A concrete provider\<close>

text \<open>
  The header has no implementation of its interfaces. To run the model, this is a small
  one on 64 bits: a single provider whose allocations are 4096 bytes, mapped at
  \<open>0x10000\<close> plus the offset; the state is the list of the ranges now mapped, as
  (address, length). Mapping a range out of bounds or already mapped, and unmapping,
  prefaulting or discarding one that is not mapped, are errors of the entry.
  \<open>12\<close> and \<open>22\<close> stand for \<^verbatim>\<open>ENOMEM\<close> and \<^verbatim>\<open>EINVAL\<close>.
\<close>

type_synonym arena = "(64 word \<times> 64 word) list"

definition arena_size :: "allocation_id \<Rightarrow> arena \<Rightarrow> 64 word" where
  "arena_size a s = 4096"

definition arena_entry ::
  "batch_op \<Rightarrow> 64 word map_t \<Rightarrow> arena \<Rightarrow> bool \<times> 64 word map_t \<times> arena" where
  "arena_entry opr m s =
     (case opr of
        Op_map \<Rightarrow>
          if unat (offset m) + unat (length_m m) \<le> 4096 \<and>
             (65536 + offset m, length_m m) \<notin> set s
          then (True, m\<lparr>addr := 65536 + offset m, ec := 0\<rparr>,
                s @ [(65536 + offset m, length_m m)])
          else (False, m\<lparr>addr := 0, ec := 22\<rparr>, s)
      | Op_unmap \<Rightarrow>
          if (addr m, length_m m) \<in> set s
          then (True, m\<lparr>ec := 0\<rparr>, remove1 (addr m, length_m m) s)
          else (False, m\<lparr>ec := 22\<rparr>, s)
      | _ \<Rightarrow>
          if (addr m, length_m m) \<in> set s
          then (True, m\<lparr>ec := 0\<rparr>, s)
          else (False, m\<lparr>ec := 22\<rparr>, s))"

fun arena_batch ::
  "batch_op \<Rightarrow> allocation_id \<Rightarrow> 64 word map_t list \<Rightarrow> arena \<Rightarrow>
   64 word \<times> 64 word map_t list \<times> arena" where
  "arena_batch opr a [] s = (0, [], s)"
| "arena_batch opr a (m # ms) s =
     (case arena_entry opr m s of
        (ok, m', s1) \<Rightarrow>
          (case arena_batch opr a ms s1 of
             (c, ms', s2) \<Rightarrow> ((if ok then 1 else 0) + c, m' # ms', s2)))"

definition arena_allocate ::
  "provider_id \<Rightarrow> error_code \<Rightarrow> 64 word \<Rightarrow> arena \<Rightarrow> (allocation_ptr \<times> error_code) \<times> arena" where
  "arena_allocate p e bytes s =
     (if bytes \<le> 4096 then ((Some 0, 0), s) else ((None, 12), s))"

definition arena_allocation ::
  "provider_id \<Rightarrow> 64 word \<Rightarrow> 64 word map_t option \<Rightarrow> arena \<Rightarrow>
   (allocation_ptr \<times> 64 word map_t option) \<times> arena" where
  "arena_allocation p x mo s =
     (case find (\<lambda>r. fst r = x) s of
        None \<Rightarrow> ((None, mo), s)
      | Some r \<Rightarrow>
          ((Some 0,
            map_option (\<lambda>m. m\<lparr>addr := fst r, offset := fst r - 65536, length_m := snd r\<rparr>) mo),
           s))"

definition arena_vtable :: "(64 word, arena) vtable" where
  "arena_vtable =
     \<lparr>v_size = arena_size, v_batch = arena_batch,
      v_allocate = arena_allocate, v_allocation = arena_allocation\<rparr>"

section \<open>Auxiliary facts\<close>

lemma unat_all_ones: "unat (- 1 :: 'w::len word) = 2 ^ LENGTH('w) - 1"
  by (simp add: unsigned_minus_1_eq_mask mask_eq_exp_minus_1)

lemma unat_max_size:
  "unat (max_size (this :: 'w::len word allocator)) =
     (2 ^ LENGTH('w) - 1) div unat (sizeof_T this)"
  by (simp add: max_size_def unat_div unat_all_ones)

text \<open>Below \<open>max_size\<close> the product stays under \<open>2 ^ w\<close>.\<close>

lemma bytes_no_wrap:
  fixes this :: "'w::len word allocator"
  assumes "n \<le> max_size this"
  shows "unat (n * sizeof_T this) = unat n * unat (sizeof_T this)"
proof -
  let ?sz = "unat (sizeof_T this)"
  have "unat n \<le> (2 ^ LENGTH('w) - 1) div ?sz"
    using assms by (simp add: word_le_nat_alt unat_max_size)
  then have "unat n * ?sz \<le> ((2 ^ LENGTH('w) - 1) div ?sz) * ?sz"
    by (rule mult_le_mono1)
  also have "\<dots> \<le> 2 ^ LENGTH('w) - 1"
    by simp
  also have "\<dots> < (2::nat) ^ LENGTH('w)"
    by simp
  finally show ?thesis
    by (simp add: unat_mult_lem)
qed

lemma fits_iff:
  fixes this :: "'w::len word allocator"
  assumes "sizeof_T this \<noteq> 0"
  shows "k * unat (sizeof_T this) \<le> 2 ^ LENGTH('w) - 1 \<longleftrightarrow> k \<le> unat (max_size this)"
proof -
  have "0 < unat (sizeof_T this)"
    using assms by (simp add: unat_gt_0)
  then show ?thesis
    by (simp add: unat_max_size less_eq_div_iff_mult_less_eq)
qed

text \<open>An array of one descriptor comes back as an array of one descriptor.\<close>

lemma length_writeback: "length (writeback ms ms') = length ms"
  by (simp add: writeback_def)

lemma writeback_single: "writeback [m] ms' = [elem0 m ms']"
  by (cases ms') (simp_all add: writeback_def elem0_def)

lemma elem0_single: "elem0 m [m'] = m'"
  by (simp add: elem0_def)

lemma call_batch_single:
  "call_batch V opr a [m] (s, tr) =
     (case v_batch V opr a [m] s of
        (c, ms', s') \<Rightarrow> ((c, [elem0 m ms']), (s', tr @ [Call_batch opr a [m]])))"
  by (simp add: call_batch_def writeback_single split: prod.splits)

lemma map_all_unfold:
  "map_all V a (s, tr) =
     (case v_batch V Op_map a [map_t2 0 (v_size V a s)] s of
        (c, ms', s') \<Rightarrow>
          (elem0 (map_t2 0 (v_size V a s)) ms',
           (s', tr @ [Call_batch Op_map a [map_t2 0 (v_size V a s)]])))"
  by (simp add: map_all_def call_batch_single elem0_single Let_def split: prod.splits)

lemma single_unfold:
  "single V opr a m (s, tr) =
     (case v_batch V opr a [m] s of
        (c, ms', s') \<Rightarrow> ((1 = c, elem0 m ms'), (s', tr @ [Call_batch opr a [m]])))"
  by (simp add: single_def call_batch_single elem0_single split: prod.splits)

lemmas arena_defs =
  arena_vtable_def arena_size_def arena_entry_def arena_allocate_def arena_allocation_def

section \<open>allocator::allocate\<close>

text \<open>
  C1. A bound adapter asked for \<open>n \<le> max_size()\<close> elements calls the provider's
  \<^verbatim>\<open>allocate\<close> once, for \<open>n * sizeof(T)\<close> bytes. When the provider sets an error or
  returns no allocation, it throws \<^verbatim>\<open>system_error\<close> and nothing else is called.
  Otherwise it calls the allocation's \<^verbatim>\<open>map\<close> once, on the one descriptor of offset 0
  and of the allocation's own size, and returns the address left in that descriptor, or
  throws \<^verbatim>\<open>bad_alloc\<close> when that address is null.
\<close>

theorem allocate_reserves_and_maps_once:
  fixes this :: "'w::len word allocator"
  assumes "provider this = Some p" and "n \<le> max_size this"
    and "v_allocate V p 0 (n * sizeof_T this) s = ((a, e), s1)"
  shows "allocate V this n (s, tr) =
     (if e = 0 \<and> a \<noteq> None
      then
        let al = the a; m0 = \<lparr>addr = 0, offset = 0, length_m = v_size V al s1, ec = 0\<rparr> in
        case v_batch V Op_map al [m0] s1 of
          (c, ms, s2) \<Rightarrow>
            (if addr (elem0 m0 ms) = 0 then Inl Bad_alloc else Inr (addr (elem0 m0 ms)),
             this, s2,
             tr @ [Call_allocate p (n * sizeof_T this), Call_batch Op_map al [m0]])
      else (Inl (System_error e ''''), this, s1, tr @ [Call_allocate p (n * sizeof_T this)]))"
  using assms
  by (auto simp: allocate_def call_allocate_def map_all_unfold map_t2_def Let_def not_less
      split: option.splits prod.splits)

theorem allocate_reserves_and_maps_once_witness:
  "allocate arena_vtable \<lparr>sizeof_T = 8, provider = Some 0\<rparr> 100 ([], []) =
     (Inr 65536, \<lparr>sizeof_T = 8, provider = Some 0\<rparr>, [(65536, 4096)],
      [Call_allocate 0 800,
       Call_batch Op_map 0 [\<lparr>addr = 0, offset = 0, length_m = 4096, ec = 0\<rparr>]])"
proof -
  let ?A = "\<lparr>sizeof_T = 8 :: 64 word, provider = Some 0\<rparr>"
  have h1: "provider ?A = Some 0"
    by simp
  have h2: "100 \<le> max_size ?A"
    by (simp add: max_size_def)
  have h3: "v_allocate arena_vtable 0 0 (100 * sizeof_T ?A) [] = ((Some 0, 0), [])"
    by (simp add: arena_defs)
  show ?thesis
    using allocate_reserves_and_maps_once [OF h1 h2 h3, of "[]"]
    by (simp add: arena_defs elem0_def)
qed

text \<open>
  C4, as amended. Asked for \<open>n > max_size()\<close> elements, a bound adapter throws
  \<^verbatim>\<open>bad_alloc\<close> and an unbound one \<^verbatim>\<open>invalid_argument("Unset provider")\<close>, the first
  check of the function; in both cases no virtual function is called and the world is
  as before.
\<close>

theorem allocate_over_max_size:
  fixes this :: "'w::len word allocator"
  assumes "n > max_size this"
  shows "allocate V this n w =
     (Inl (if provider this = None then Invalid_argument ''Unset provider'' else Bad_alloc),
      this, w)"
  using assms by (simp add: allocate_def split: option.splits)

theorem allocate_over_max_size_witness:
  "max_size \<lparr>sizeof_T = 8 :: 64 word, provider = Some 0\<rparr> < 2305843009213693952 \<and>
   allocate arena_vtable \<lparr>sizeof_T = 8, provider = Some 0\<rparr> 2305843009213693952 ([], []) =
     (Inl Bad_alloc, \<lparr>sizeof_T = 8, provider = Some 0\<rparr>, [], [])"
proof -
  let ?A = "\<lparr>sizeof_T = 8 :: 64 word, provider = Some 0\<rparr>"
  have h: "max_size ?A < 2305843009213693952"
    by (simp add: max_size_def)
  show ?thesis
    using h allocate_over_max_size [OF h, of arena_vtable "([], [])"] by simp
qed

text \<open>
  C4 as stated, for every adapter, fails on an unbound one: with 8-byte elements on 64
  bits, \<open>max_size()\<close> is \<open>2 ^ 61 - 1\<close>, and \<^verbatim>\<open>allocate(2 ^ 61)\<close> throws
  \<^verbatim>\<open>invalid_argument\<close>, not the size-overflow \<^verbatim>\<open>bad_alloc\<close>.
\<close>

theorem allocate_over_max_size_counterexample:
  "max_size \<lparr>sizeof_T = 8 :: 64 word, provider = None\<rparr> < 2305843009213693952 \<and>
   fst (allocate arena_vtable \<lparr>sizeof_T = 8, provider = None\<rparr> 2305843009213693952 ([], [])) =
     Inl (Invalid_argument ''Unset provider'') \<and>
   fst (allocate arena_vtable \<lparr>sizeof_T = 8, provider = None\<rparr> 2305843009213693952 ([], [])) \<noteq>
     Inl Bad_alloc"
  by (simp add: max_size_def allocate_def)

text \<open>
  C10. For \<open>n \<le> max_size()\<close> the product \<open>n * sizeof(T)\<close> computed in \<^verbatim>\<open>size_type\<close> is
  the product of the two numbers, and it is the byte count that a bound adapter passes
  to the provider's \<^verbatim>\<open>allocate\<close>.
\<close>

theorem allocate_bytes_exact:
  fixes this :: "'w::len word allocator"
  assumes "n \<le> max_size this"
  shows "unat (n * sizeof_T this) = unat n * unat (sizeof_T this) \<and>
         (\<forall>p. provider this = Some p \<longrightarrow>
            (\<exists>rest. snd (snd (snd (allocate V this n (s, tr)))) =
                      tr @ Call_allocate p (n * sizeof_T this) # rest))"
proof (intro conjI allI impI)
  show "unat (n * sizeof_T this) = unat n * unat (sizeof_T this)"
    using assms by (rule bytes_no_wrap)
next
  fix p
  assume bound: "provider this = Some p"
  obtain a e s1 where va: "v_allocate V p 0 (n * sizeof_T this) s = ((a, e), s1)"
    by (metis surj_pair)
  show "\<exists>rest. snd (snd (snd (allocate V this n (s, tr)))) =
          tr @ Call_allocate p (n * sizeof_T this) # rest"
    using assms bound va
    by (auto simp: allocate_def call_allocate_def map_all_unfold Let_def not_less
        split: option.splits prod.splits)
qed

theorem allocate_bytes_exact_witness:
  "(100 :: 64 word) \<le> max_size \<lparr>sizeof_T = 8, provider = Some 0\<rparr> \<and>
   unat (100 * 8 :: 64 word) = 100 * 8 \<and>
   (\<exists>rest. snd (snd (snd (allocate arena_vtable \<lparr>sizeof_T = 8, provider = Some 0\<rparr> 100 ([], [])))) =
             Call_allocate 0 800 # rest)"
proof -
  let ?A = "\<lparr>sizeof_T = 8 :: 64 word, provider = Some 0\<rparr>"
  have h: "100 \<le> max_size ?A"
    by (simp add: max_size_def)
  show ?thesis
    using h allocate_bytes_exact [OF h, of arena_vtable "[]" "[]"] by simp
qed

section \<open>allocator::deallocate\<close>

text \<open>
  C2. A bound adapter calls the provider's reverse lookup \<^verbatim>\<open>allocation(p, &m)\<close> once.
  When it returns no allocation, \<^verbatim>\<open>deallocate\<close> throws
  \<^verbatim>\<open>invalid_argument("Address not found")\<close> and no \<^verbatim>\<open>unmap\<close> is called. Otherwise
  \<^verbatim>\<open>unmap\<close> is called once, on the one descriptor that the lookup has filled in, and an
  error left in that descriptor is thrown as \<^verbatim>\<open>system_error\<close>.
\<close>

theorem deallocate_looks_up_and_unmaps_once:
  fixes this :: "'w::len word allocator"
  assumes "provider this = Some pr"
    and "v_allocation V pr p (Some map_t0) s = ((a, mo), s1)"
  shows "deallocate V this p n (s, tr) =
     (case a of
        None \<Rightarrow>
          (Inl (Invalid_argument ''Address not found''), this, s1, tr @ [Call_allocation pr p])
      | Some al \<Rightarrow>
          let m = (case mo of None \<Rightarrow> map_t0 | Some m' \<Rightarrow> m') in
          case v_batch V Op_unmap al [m] s1 of
            (c, ms, s2) \<Rightarrow>
              (if ec (elem0 m ms) = 0 then Inr ()
               else Inl (System_error (ec (elem0 m ms)) ''Failed to unmap allocation''),
               this, s2, tr @ [Call_allocation pr p, Call_batch Op_unmap al [m]]))"
  using assms
  by (auto simp: deallocate_def call_allocation_def unmap_single_def single_unfold Let_def
      split: option.splits prod.splits)

theorem deallocate_looks_up_and_unmaps_once_witness:
  "deallocate arena_vtable \<lparr>sizeof_T = 8, provider = Some 0\<rparr> 65536 100 ([(65536, 4096)], []) =
     (Inr (), \<lparr>sizeof_T = 8, provider = Some 0\<rparr>, [],
      [Call_allocation 0 65536,
       Call_batch Op_unmap 0 [\<lparr>addr = 65536, offset = 0, length_m = 4096, ec = 0\<rparr>]])"
proof -
  let ?A = "\<lparr>sizeof_T = 8 :: 64 word, provider = Some 0\<rparr>"
  have h1: "provider ?A = Some 0"
    by simp
  have h2: "v_allocation arena_vtable 0 65536 (Some map_t0) [(65536, 4096)] =
      ((Some 0, Some \<lparr>addr = 65536, offset = 0, length_m = 4096, ec = 0\<rparr>), [(65536, 4096)])"
    by (simp add: arena_defs map_t0_def)
  show ?thesis
    using deallocate_looks_up_and_unmaps_once [OF h1 h2, of 100 "[]"]
    by (simp add: arena_defs elem0_def)
qed

text \<open>
  C9. When \<^verbatim>\<open>allocate\<close> or \<^verbatim>\<open>deallocate\<close> throws, whatever the exception, the adapter
  is as it was before the call: it is bound to the same provider.
\<close>

theorem failure_keeps_adapter:
  "(isl (fst (allocate V this n w)) \<longrightarrow> fst (snd (allocate V this n w)) = this) \<and>
   (isl (fst (deallocate V this p k w)) \<longrightarrow> fst (snd (deallocate V this p k w)) = this)"
  by (auto simp: allocate_def deallocate_def Let_def split: option.splits prod.splits if_splits)

theorem failure_keeps_adapter_witness:
  "isl (fst (allocate arena_vtable \<lparr>sizeof_T = 8, provider = Some 0\<rparr> 1000 ([], []))) \<and>
   fst (snd (allocate arena_vtable \<lparr>sizeof_T = 8, provider = Some 0\<rparr> 1000 ([], []))) =
     \<lparr>sizeof_T = 8, provider = Some 0\<rparr> \<and>
   isl (fst (deallocate arena_vtable \<lparr>sizeof_T = 8, provider = Some 0\<rparr> 65537 100
              ([(65536, 4096)], []))) \<and>
   fst (snd (deallocate arena_vtable \<lparr>sizeof_T = 8, provider = Some 0\<rparr> 65537 100
              ([(65536, 4096)], []))) =
     \<lparr>sizeof_T = 8, provider = Some 0\<rparr>"
proof -
  let ?A = "\<lparr>sizeof_T = 8 :: 64 word, provider = Some 0\<rparr>"
  have h1: "isl (fst (allocate arena_vtable ?A 1000 ([], [])))"
    by (simp add: allocate_def max_size_def call_allocate_def arena_defs)
  have h2: "isl (fst (deallocate arena_vtable ?A 65537 100 ([(65536, 4096)], [])))"
    by (simp add: deallocate_def call_allocation_def arena_defs)
  show ?thesis
    using h1 h2
      failure_keeps_adapter [of arena_vtable ?A 1000 "([], [])" 65537 100]
      failure_keeps_adapter [of arena_vtable ?A 1000 "([(65536, 4096)], [])" 65537 100]
    by simp
qed

section \<open>allocator::max_size, the constructors and the comparisons\<close>

text \<open>
  C7. \<open>max_size()\<close> is \<open>(2 ^ w - 1) div sizeof(T)\<close>; \<open>k\<close> elements take at most
  \<open>2 ^ w - 1\<close> bytes exactly when \<open>k\<close> is at most \<open>max_size()\<close>; and the value is the
  same whatever provider the adapter is bound to. (\<open>max_size\<close> takes no world and
  returns none.)
\<close>

theorem max_size_largest_count:
  fixes this :: "'w::len word allocator"
  assumes "sizeof_T this \<noteq> 0"
  shows "unat (max_size this) = (2 ^ LENGTH('w) - 1) div unat (sizeof_T this) \<and>
         (\<forall>k. k * unat (sizeof_T this) \<le> 2 ^ LENGTH('w) - 1 \<longleftrightarrow> k \<le> unat (max_size this)) \<and>
         max_size (this\<lparr>provider := q\<rparr>) = max_size this"
proof (intro conjI allI)
  show "unat (max_size this) = (2 ^ LENGTH('w) - 1) div unat (sizeof_T this)"
    by (rule unat_max_size)
  show "k * unat (sizeof_T this) \<le> 2 ^ LENGTH('w) - 1 \<longleftrightarrow> k \<le> unat (max_size this)" for k
    using assms by (rule fits_iff)
  show "max_size (this\<lparr>provider := q\<rparr>) = max_size this"
    by (simp add: max_size_def)
qed

theorem max_size_largest_count_witness:
  "sizeof_T \<lparr>sizeof_T = 8 :: 64 word, provider = None\<rparr> \<noteq> 0 \<and>
   unat (max_size \<lparr>sizeof_T = 8 :: 64 word, provider = None\<rparr>) = 2305843009213693951 \<and>
   max_size \<lparr>sizeof_T = 8 :: 64 word, provider = Some 3\<rparr> =
     max_size \<lparr>sizeof_T = 8 :: 64 word, provider = None\<rparr>"
proof -
  let ?A = "\<lparr>sizeof_T = 8 :: 64 word, provider = None\<rparr>"
  have h: "sizeof_T ?A \<noteq> 0"
    by simp
  show ?thesis
    using max_size_largest_count [OF h, of "Some 3"] by simp
qed

text \<open>
  C5. Two adapters, of whatever element sizes, compare equal exactly when both are
  bound to the same provider or both are unbound, and \<^verbatim>\<open>operator!=\<close> is the negation
  of \<^verbatim>\<open>operator==\<close>.
\<close>

theorem operator_eq_iff_same_provider:
  "(operator_eq a b \<longleftrightarrow>
      (\<exists>p. provider a = Some p \<and> provider b = Some p) \<or>
      (provider a = None \<and> provider b = None)) \<and>
   (operator_ne a b \<longleftrightarrow> \<not> operator_eq a b)"
  by (cases "provider a"; cases "provider b") (auto simp: operator_eq_def operator_ne_def)

text \<open>
  C8. The rebind conversion does not construct an adapter. An \<^verbatim>\<open>allocator<double>\<close>
  made from an \<^verbatim>\<open>allocator<int>\<close> bound to provider 0, by line 252 or by line 253, is
  ill-formed, as the constructor reads the private \<^verbatim>\<open>_provider\<close> of another class.
  The constructor of line 250, between adapters of one element type, copies the
  provider, and its result compares equal to its source.
\<close>

theorem converting_constructor_ill_formed:
  "allocator_convert ''double'' ''int'' \<lparr>sizeof_T = 4 :: 64 word, provider = Some 0\<rparr> =
     Inl (Private_member ''_provider'') \<and>
   allocator_convert_move ''double'' ''int'' \<lparr>sizeof_T = 4 :: 64 word, provider = Some 0\<rparr> =
     Inl (Private_member ''_provider'') \<and>
   provider (allocator_copy \<lparr>sizeof_T = 4 :: 64 word, provider = Some 0\<rparr>) = Some 0 \<and>
   operator_eq (allocator_copy \<lparr>sizeof_T = 4 :: 64 word, provider = Some 0\<rparr>)
     \<lparr>sizeof_T = 4 :: 64 word, provider = Some 0\<rparr>"
  by (simp add: allocator_convert_def allocator_convert_move_def allocator_copy_def
      operator_eq_def)

section \<open>allocation::map() and the container overload of unmap\<close>

text \<open>
  C6. \<^verbatim>\<open>map()\<close> makes the one call that the batch \<^verbatim>\<open>map\<close> makes on the array of the
  single descriptor of offset 0 and length \<^verbatim>\<open>size()\<close>, leaves the world that this call
  leaves, and returns the descriptor as the call has left it.
\<close>

theorem map_all_is_batch_of_whole:
  "\<exists>c m. call_batch V Op_map a
            [\<lparr>addr = 0, offset = 0, length_m = v_size V a (fst w), ec = 0\<rparr>] w =
            ((c, [m]), snd (map_all V a w)) \<and>
          fst (map_all V a w) = m"
  by (cases w) (auto simp: map_all_unfold call_batch_single map_t2_def split: prod.splits)

text \<open>
  C3. The container overload of \<^verbatim>\<open>unmap\<close> does not unmap. On the concrete provider,
  with the whole allocation mapped at \<open>0x10000\<close> and a container holding its descriptor,
  it calls \<^verbatim>\<open>map\<close>: the call is refused (the range is mapped already), the count is 0,
  the descriptor comes back with a null address and an error, and the range stays
  mapped. The batch \<^verbatim>\<open>unmap\<close> on the same array (the vector overload) unmaps the range
  and returns 1.
\<close>

theorem unmap_container_calls_map:
  "unmap_container arena_vtable 0
     [\<lparr>addr = 65536, offset = 0, length_m = 4096, ec = 0\<rparr>] ([(65536, 4096)], []) =
     ((0, [\<lparr>addr = 0, offset = 0, length_m = 4096, ec = 22\<rparr>]),
      [(65536, 4096)],
      [Call_batch Op_map 0 [\<lparr>addr = 65536, offset = 0, length_m = 4096, ec = 0\<rparr>]]) \<and>
   unmap_vector arena_vtable 0
     [\<lparr>addr = 65536, offset = 0, length_m = 4096, ec = 0\<rparr>] ([(65536, 4096)], []) =
     ((1, [\<lparr>addr = 65536, offset = 0, length_m = 4096, ec = 0\<rparr>]),
      [],
      [Call_batch Op_unmap 0 [\<lparr>addr = 65536, offset = 0, length_m = 4096, ec = 0\<rparr>]])"
  by (simp add: unmap_container_def map_range_def unmap_vector_def call_batch_def
      writeback_def elem0_def arena_defs)

end
